theory Spec2Isabelle
  imports Complex_Main "HOL-Library.Sublist"
begin

section \<open>Numbers\<close>

text \<open>
  Numbers are IEEE doubles in the source. Only their order and equality are used by the
  filter engine, and both are exact, so a number is modelled by the real it denotes, the
  two infinities, or NaN. Every comparison with NaN is false.
\<close>

datatype jsnum = NaN | NegInf | Fin real | PosInf

fun isNaN :: "jsnum \<Rightarrow> bool" where
  "isNaN NaN = True"
| "isNaN _ = False"

text \<open>\<^verbatim>\<open>a < b\<close> on numbers.\<close>

fun num_lt :: "jsnum \<Rightarrow> jsnum \<Rightarrow> bool" where
  "num_lt NaN _ = False"
| "num_lt _ NaN = False"
| "num_lt (Fin a) (Fin b) = (a < b)"
| "num_lt _ NegInf = False"
| "num_lt NegInf _ = True"
| "num_lt PosInf _ = False"
| "num_lt _ PosInf = True"

text \<open>\<^verbatim>\<open>a === b\<close> on numbers: NaN is not equal to itself.\<close>

definition num_eq :: "jsnum \<Rightarrow> jsnum \<Rightarrow> bool" where
  "num_eq a b = (a \<noteq> NaN \<and> a = b)"

text \<open>\<^verbatim>\<open>a <= b\<close> on numbers.\<close>

definition num_le :: "jsnum \<Rightarrow> jsnum \<Rightarrow> bool" where
  "num_le a b = (num_lt a b \<or> num_eq a b)"

section \<open>The runtime\<close>

text \<open>
  The library functions of the language that the source calls and whose results depend on
  the platform are parameters: lower-casing of strings, \<open>parseFloat\<close>, the time value of
  \<^verbatim>\<open>new Date(string)\<close> in milliseconds (\<open>None\<close> is an invalid date), the offset of
  local time from UTC in milliseconds (at a UTC instant when the flag is true, at a local
  one when it is false), and the names of the methods of \<open>Array.prototype\<close>, whose list
  grows with the edition of the language.
\<close>

record runtime =
  toLowerCase :: "string \<Rightarrow> string"
  parseFloat :: "string \<Rightarrow> jsnum"
  Date_parse :: "string \<Rightarrow> int option"
  LocalTZA :: "int \<Rightarrow> bool \<Rightarrow> int"
  Array_prototype :: "string list"

section \<open>The values of records\<close>

text \<open>
  A record is a JSON-like value: a plain object with its own string-keyed properties, an
  array, or a primitive value. Reading a property also finds what objects and arrays
  inherit, so the values reached from a record include the methods of \<open>Object.prototype\<close>
  and \<open>Array.prototype\<close> (a function, named by where it was found; the source neither
  calls nor compares one) and these two prototype objects themselves.
  A string is the list of its characters; the source compares strings for equality and
  for being a prefix, a suffix or a part of one another, which does not depend on what
  the characters are.
\<close>

datatype jsval =
    JUndefined
  | JNull
  | JBool bool
  | JNum jsnum
  | JStr string
  | JArr "jsval list"
  | JObj "(string \<times> jsval) list"
  | JFunction string
  | JObjectPrototype
  | JArrayPrototype

datatype jstype = TUndefined | TObject | TBoolean | TNumber | TString | TFunction

fun typeof :: "jsval \<Rightarrow> jstype" where
  "typeof JUndefined = TUndefined"
| "typeof JNull = TObject"
| "typeof (JBool _) = TBoolean"
| "typeof (JNum _) = TNumber"
| "typeof (JStr _) = TString"
| "typeof (JArr _) = TObject"
| "typeof (JObj _) = TObject"
| "typeof (JFunction _) = TFunction"
| "typeof JObjectPrototype = TObject"
| "typeof JArrayPrototype = TObject"

fun truthy :: "jsval \<Rightarrow> bool" where
  "truthy JUndefined = False"
| "truthy JNull = False"
| "truthy (JBool b) = b"
| "truthy (JNum n) = (n \<noteq> NaN \<and> n \<noteq> Fin 0)"
| "truthy (JStr s) = (s \<noteq> [])"
| "truthy _ = True"

subsection \<open>Property keys\<close>

definition is_digit :: "char \<Rightarrow> bool" where
  "is_digit c = (c \<in> set ''0123456789'')"

definition digit_val :: "char \<Rightarrow> nat" where
  "digit_val c = of_char c - 48"

definition decimal :: "string \<Rightarrow> nat" where
  "decimal s = foldl (\<lambda>n c. 10 * n + digit_val c) 0 s"

text \<open>
  An array index is the canonical decimal form of an integer below \<open>2^32 - 1\<close>: digits
  only, no leading zero except for \<open>0\<close> itself.
\<close>

definition array_index :: "string \<Rightarrow> nat option" where
  "array_index k =
     (if k \<noteq> [] \<and> list_all is_digit k \<and> (k = ''0'' \<or> hd k \<noteq> CHR ''0'')
         \<and> int (decimal k) < 4294967295
      then Some (decimal k) else None)"

text \<open>
  The properties of \<open>Object.prototype\<close>, which every plain object and every array
  inherits: the language standard fixes them. Each is a function, but for \<open>__proto__\<close>,
  which reads as the prototype of the object it is read from.
\<close>

definition Object_prototype :: "string list" where
  "Object_prototype =
     [''constructor'', ''hasOwnProperty'', ''isPrototypeOf'', ''propertyIsEnumerable'',
      ''toLocaleString'', ''toString'', ''valueOf'', ''__proto__'', ''__defineGetter__'',
      ''__defineSetter__'', ''__lookupGetter__'', ''__lookupSetter__'']"

definition inherited_from_Object :: "jsval \<Rightarrow> string \<Rightarrow> jsval option" where
  "inherited_from_Object proto k =
     (if k \<in> set Object_prototype then
        Some (if k = ''__proto__'' then proto else JFunction (''Object.prototype.'' @ k))
      else None)"

definition inherited_from_Array :: "runtime \<Rightarrow> jsval \<Rightarrow> string \<Rightarrow> jsval option" where
  "inherited_from_Array E proto k =
     (if k \<in> set (Array_prototype E) then Some (JFunction (''Array.prototype.'' @ k))
      else inherited_from_Object proto k)"

text \<open>
  \<open>get_prop E v k\<close> is \<open>Some\<close> the value of \<^verbatim>\<open>v[k]\<close> when \<^verbatim>\<open>k in v\<close> holds for an object
  \<open>v\<close>, and \<open>None\<close> when the key is not there. An own property comes first: the keys of
  a plain object, the indices and \<open>length\<close> of an array. Then come the properties of the
  prototypes: \<open>Object.prototype\<close> for a plain object, \<open>Array.prototype\<close> and then
  \<open>Object.prototype\<close> for an array. \<open>Array.prototype\<close> is itself an empty array.
\<close>

fun get_prop :: "runtime \<Rightarrow> jsval \<Rightarrow> string \<Rightarrow> jsval option" where
  "get_prop E (JObj kvs) k =
     (case map_of kvs k of
        Some v \<Rightarrow> Some v
      | None \<Rightarrow> inherited_from_Object JObjectPrototype k)"
| "get_prop E (JArr xs) k =
     (if k = ''length'' then Some (JNum (Fin (real (length xs))))
      else case array_index k of
             Some i \<Rightarrow>
               (if i < length xs then Some (xs ! i)
                else inherited_from_Array E JArrayPrototype k)
           | None \<Rightarrow> inherited_from_Array E JArrayPrototype k)"
| "get_prop E JArrayPrototype k =
     (if k = ''length'' then Some (JNum (Fin 0))
      else inherited_from_Array E JObjectPrototype k)"
| "get_prop E JObjectPrototype k = inherited_from_Object JNull k"
| "get_prop E _ k = None"

subsection \<open>Path resolution\<close>

text \<open>\<^verbatim>\<open>path.split('.')\<close>: never empty; the empty string gives one empty key.\<close>

fun split_dot :: "string \<Rightarrow> string list" where
  "split_dot [] = [[]]"
| "split_dot (c # cs) =
     (if c = CHR ''.'' then [] # split_dot cs
      else (case split_dot cs of
              w # ws \<Rightarrow> (c # w) # ws
            | [] \<Rightarrow> [[c]]))"

text \<open>The reducer of \<open>getNestedValue\<close>: one step down the path.\<close>

definition nested_step :: "runtime \<Rightarrow> jsval \<Rightarrow> string \<Rightarrow> jsval" where
  "nested_step E current key =
     (if truthy current \<and> typeof current = TObject then
        (case get_prop E current key of Some v \<Rightarrow> v | None \<Rightarrow> JUndefined)
      else JUndefined)"

definition getNestedValue :: "runtime \<Rightarrow> jsval \<Rightarrow> string \<Rightarrow> jsval" where
  "getNestedValue E obj path = foldl (nested_step E) obj (split_dot path)"

section \<open>Conditions\<close>

datatype FilterOperator =
    Equals | Contains | StartsWith | EndsWith | DoesNotContain
  | GreaterThan | LessThan | GreaterThanOrEqual | LessThanOrEqual
  | Between | Is | IsNot | In | NotIn

text \<open>A bound of a range is \<^verbatim>\<open>string | number | null\<close>.\<close>

datatype bound = BNull | BStr string | BNum jsnum

record RangeValue =
  range_min :: bound
  range_max :: bound

record DateRangeValue =
  startDate :: "string option"
  endDate :: "string option"

text \<open>
  The union \<open>FilterValue\<close> of the type declarations, and \<open>undefined\<close>, which the
  declarations do not list but the validity check tests for. The fields \<open>min\<close> and \<open>max\<close>
  of a range are \<open>range_min\<close> and \<open>range_max\<close> here, and the fields \<open>id\<close> and \<open>value\<close> of
  a condition are \<open>fid\<close> and \<open>fvalue\<close>.
\<close>

datatype FilterValue =
    FVString string
  | FVNumber jsnum
  | FVBoolean bool
  | FVStrings "string list"
  | FVRange RangeValue
  | FVDateRange DateRangeValue
  | FVNull
  | FVUndefined

record FilterCondition =
  fid :: string
  field :: string
  operator :: FilterOperator
  fvalue :: FilterValue

datatype error = TypeError

section \<open>The evaluators of one condition\<close>

definition filterText :: "runtime \<Rightarrow> string \<Rightarrow> string \<Rightarrow> FilterOperator \<Rightarrow> bool" where
  "filterText E v filterValue op =
     (let lowerValue = toLowerCase E v; lowerFilter = toLowerCase E filterValue in
      case op of
        Equals \<Rightarrow> lowerValue = lowerFilter
      | Contains \<Rightarrow> sublist lowerFilter lowerValue
      | StartsWith \<Rightarrow> prefix lowerFilter lowerValue
      | EndsWith \<Rightarrow> suffix lowerFilter lowerValue
      | DoesNotContain \<Rightarrow> \<not> sublist lowerFilter lowerValue
      | _ \<Rightarrow> True)"

definition filterNumber :: "jsnum \<Rightarrow> jsnum \<Rightarrow> FilterOperator \<Rightarrow> bool" where
  "filterNumber v filterValue op =
     (case op of
        Equals \<Rightarrow> num_eq v filterValue
      | GreaterThan \<Rightarrow> num_lt filterValue v
      | LessThan \<Rightarrow> num_lt v filterValue
      | GreaterThanOrEqual \<Rightarrow> num_le filterValue v
      | LessThanOrEqual \<Rightarrow> num_le v filterValue
      | _ \<Rightarrow> True)"

subsection \<open>Dates\<close>

text \<open>
  A date holds a time value: milliseconds since the epoch, or \<open>None\<close> for an invalid
  date. Comparing two dates compares their time values as numbers, so a comparison with
  an invalid date is false.
\<close>

fun time_lt :: "int option \<Rightarrow> int option \<Rightarrow> bool" where
  "time_lt (Some a) (Some b) = (a < b)"
| "time_lt _ _ = False"

definition msPerDay :: int where
  "msPerDay = 86400000"

definition TimeClip :: "int \<Rightarrow> int option" where
  "TimeClip t = (if \<bar>t\<bar> > 8640000000000000 then None else Some t)"

text \<open>
  \<^verbatim>\<open>end.setHours(23, 59, 59, 999)\<close> as the language standard defines it: the time value is
  taken to local time, its time within the day is replaced, and the result is taken back.
\<close>

definition setHours_23_59_59_999 :: "runtime \<Rightarrow> int option \<Rightarrow> int option" where
  "setHours_23_59_59_999 E tv =
     (case tv of
        None \<Rightarrow> None
      | Some t \<Rightarrow>
          (let local = t + LocalTZA E t True;
               date = (local div msPerDay) * msPerDay
                        + (23 * 3600000 + 59 * 60000 + 59 * 1000 + 999)
           in TimeClip (date - LocalTZA E date False)))"

definition filterDateRange :: "runtime \<Rightarrow> string \<Rightarrow> DateRangeValue \<Rightarrow> bool" where
  "filterDateRange E v filterValue =
     (let date = Date_parse E v in
      if (startDate filterValue = None \<or> startDate filterValue = Some [])
         \<and> (endDate filterValue = None \<or> endDate filterValue = Some []) then True
      else if (case startDate filterValue of
                 None \<Rightarrow> False
               | Some s \<Rightarrow> s \<noteq> [] \<and> time_lt date (Date_parse E s)) then False
      else if (case endDate filterValue of
                 None \<Rightarrow> False
               | Some e \<Rightarrow> e \<noteq> []
                    \<and> time_lt (setHours_23_59_59_999 E (Date_parse E e)) date) then False
      else True)"

subsection \<open>Amounts\<close>

text \<open>
  The check of one bound: \<open>below\<close> says on which side the bound lies. A bound is looked
  at when it is neither null nor the empty string; a string is read by \<open>parseFloat\<close>.
\<close>

definition bound_rejects :: "runtime \<Rightarrow> bool \<Rightarrow> jsnum \<Rightarrow> bound \<Rightarrow> bool" where
  "bound_rejects E below v b =
     (case b of
        BNull \<Rightarrow> False
      | BStr s \<Rightarrow> s \<noteq> [] \<and>
          (let n = parseFloat E s in
           \<not> isNaN n \<and> (if below then num_lt v n else num_lt n v))
      | BNum n \<Rightarrow> \<not> isNaN n \<and> (if below then num_lt v n else num_lt n v))"

definition filterAmountRange :: "runtime \<Rightarrow> jsnum \<Rightarrow> RangeValue \<Rightarrow> bool" where
  "filterAmountRange E v filterValue =
     (let mn = range_min filterValue; mx = range_max filterValue in
      if mn = BNull \<and> mx = BNull then True
      else if mn = BStr [] \<and> mx = BStr [] then True
      else if bound_rejects E True v mn then False
      else if bound_rejects E False v mx then False
      else True)"

subsection \<open>Selections and booleans\<close>

definition filterSingleSelect :: "runtime \<Rightarrow> string \<Rightarrow> string \<Rightarrow> FilterOperator \<Rightarrow> bool" where
  "filterSingleSelect E v filterValue op =
     (let lowerValue = toLowerCase E v; lowerFilter = toLowerCase E filterValue in
      case op of
        Is \<Rightarrow> lowerValue = lowerFilter
      | IsNot \<Rightarrow> lowerValue \<noteq> lowerFilter
      | _ \<Rightarrow> True)"

text \<open>
  \<^verbatim>\<open>value.map(v => v.toLowerCase())\<close> on the elements of an array of the record: an
  element that is not a string has no such method, and the call raises.
\<close>

fun lowerValues :: "runtime \<Rightarrow> jsval list \<Rightarrow> error + string list" where
  "lowerValues E [] = Inr []"
| "lowerValues E (JStr s # vs) =
     (case lowerValues E vs of
        Inl e \<Rightarrow> Inl e
      | Inr ls \<Rightarrow> Inr (toLowerCase E s # ls))"
| "lowerValues E (_ # vs) = Inl TypeError"

definition filterMultiSelect ::
    "runtime \<Rightarrow> jsval list \<Rightarrow> string list \<Rightarrow> FilterOperator \<Rightarrow> error + bool" where
  "filterMultiSelect E v filterValues op =
     (if filterValues = [] then Inr True
      else case lowerValues E v of
        Inl e \<Rightarrow> Inl e
      | Inr lowerVs \<Rightarrow>
          (let lowerFilters = map (toLowerCase E) filterValues in
           Inr (case op of
                  In \<Rightarrow> list_ex (\<lambda>f. f \<in> set lowerVs) lowerFilters
                | NotIn \<Rightarrow> \<not> list_ex (\<lambda>f. f \<in> set lowerVs) lowerFilters
                | _ \<Rightarrow> True)))"

definition filterBoolean :: "bool \<Rightarrow> bool \<Rightarrow> bool" where
  "filterBoolean v filterValue = (v = filterValue)"

section \<open>The validity of a condition\<close>

definition hasValidFilterValue :: "FilterCondition \<Rightarrow> bool" where
  "hasValidFilterValue f =
     (let v = fvalue f; op = operator f in
      if v = FVNull \<or> v = FVUndefined then False
      else if v = FVString [] then False
      else if op = Between then
        (case v of
           FVDateRange d \<Rightarrow>
             (startDate d \<noteq> None \<and> startDate d \<noteq> Some [])
               \<or> (endDate d \<noteq> None \<and> endDate d \<noteq> Some [])
         | FVRange r \<Rightarrow>
             (range_min r \<noteq> BNull \<and> range_min r \<noteq> BStr [])
               \<or> (range_max r \<noteq> BNull \<and> range_max r \<noteq> BStr [])
         | _ \<Rightarrow> False)
      else
        (case v of
           FVStrings xs \<Rightarrow> length xs > 0
         | _ \<Rightarrow> True))"

section \<open>One condition on one record\<close>

text \<open>
  The tests on the runtime shape of the field value and of the condition's value, in the
  order of the source. The cases exclude each other; what none of them takes is true.
  \<open>Array.isArray\<close> holds of an array and of \<open>Array.prototype\<close>, an array with no element.
\<close>

fun applyFilter_shapes ::
    "runtime \<Rightarrow> FilterOperator \<Rightarrow> jsval \<Rightarrow> FilterValue \<Rightarrow> error + bool" where
  "applyFilter_shapes E op (JStr s) (FVString v) =
     Inr (if op = Is \<or> op = IsNot then filterSingleSelect E s v op
          else filterText E s v op)"
| "applyFilter_shapes E op (JNum n) (FVNumber m) = Inr (filterNumber n m op)"
| "applyFilter_shapes E op (JNum n) (FVRange r) =
     Inr (if op = Between then filterAmountRange E n r else True)"
| "applyFilter_shapes E op (JStr s) (FVDateRange d) =
     Inr (if op = Between then filterDateRange E s d else True)"
| "applyFilter_shapes E op (JArr xs) (FVStrings fs) = filterMultiSelect E xs fs op"
| "applyFilter_shapes E op JArrayPrototype (FVStrings fs) = filterMultiSelect E [] fs op"
| "applyFilter_shapes E op (JBool b) (FVBoolean c) = Inr (filterBoolean b c)"
| "applyFilter_shapes E op _ _ = Inr True"

definition applyFilter :: "runtime \<Rightarrow> jsval \<Rightarrow> FilterCondition \<Rightarrow> error + bool" where
  "applyFilter E rec f =
     (let fieldValue = getNestedValue E rec (field f) in
      if fieldValue = JNull \<or> fieldValue = JUndefined then Inr False
      else applyFilter_shapes E (operator f) fieldValue (fvalue f))"

section \<open>All conditions on all records\<close>

text \<open>
  \<open>some\<close>, \<open>every\<close> and \<open>filter\<close> of arrays, with a callback that may raise: they call it
  from left to right, \<open>some\<close> stops at the first true, \<open>every\<close> at the first false, and an
  exception ends the whole call.
\<close>

fun some_e :: "('a \<Rightarrow> error + bool) \<Rightarrow> 'a list \<Rightarrow> error + bool" where
  "some_e p [] = Inr False"
| "some_e p (x # xs) =
     (case p x of
        Inl e \<Rightarrow> Inl e
      | Inr b \<Rightarrow> if b then Inr True else some_e p xs)"

fun every_e :: "('a \<Rightarrow> error + bool) \<Rightarrow> 'a list \<Rightarrow> error + bool" where
  "every_e p [] = Inr True"
| "every_e p (x # xs) =
     (case p x of
        Inl e \<Rightarrow> Inl e
      | Inr b \<Rightarrow> if b then every_e p xs else Inr False)"

fun filter_e :: "('a \<Rightarrow> error + bool) \<Rightarrow> 'a list \<Rightarrow> error + 'a list" where
  "filter_e p [] = Inr []"
| "filter_e p (x # xs) =
     (case p x of
        Inl e \<Rightarrow> Inl e
      | Inr b \<Rightarrow>
          (case filter_e p xs of
             Inl e \<Rightarrow> Inl e
           | Inr ys \<Rightarrow> Inr (if b then x # ys else ys)))"

text \<open>
  The object that groups the conditions is a list of its own keys with their arrays, in
  the order in which the keys were added; it is a plain object, so reading a key of it
  also finds what \<open>Object.prototype\<close> gives. One step of the \<open>reduce\<close>: when reading the
  field on the object gives nothing, the field gets an empty array; then \<open>push\<close> is called
  on what reading the field gives. That is the array of the field, or, for a field that
  names a property of \<open>Object.prototype\<close>, a function or the prototype itself, which has
  no \<open>push\<close>: the call raises.
\<close>

definition group_step ::
    "(string \<times> FilterCondition list) list \<Rightarrow> FilterCondition
       \<Rightarrow> error + (string \<times> FilterCondition list) list" where
  "group_step acc f =
     (let acc1 =
        (if map_of acc (field f) = None
            \<and> inherited_from_Object JObjectPrototype (field f) = None
         then acc @ [(field f, [])] else acc)
      in if map_of acc1 (field f) = None then Inl TypeError
         else Inr (map (\<lambda>(k, fs). if k = field f then (k, fs @ [f]) else (k, fs)) acc1))"

text \<open>The \<open>reduce\<close> over the valid conditions; an exception ends it.\<close>

fun group_all ::
    "(string \<times> FilterCondition list) list \<Rightarrow> FilterCondition list
       \<Rightarrow> error + (string \<times> FilterCondition list) list" where
  "group_all acc [] = Inr acc"
| "group_all acc (f # fs) =
     (case group_step acc f of
        Inl e \<Rightarrow> Inl e
      | Inr acc1 \<Rightarrow> group_all acc1 fs)"

text \<open>
  \<open>Object.values\<close> lists the values of the keys that are array indices first, by ascending
  index, and then those of the other keys in the order in which they were added.
\<close>

definition Object_values :: "(string \<times> 'a) list \<Rightarrow> 'a list" where
  "Object_values kvs =
     map snd (sort_key (\<lambda>kv. the (array_index (fst kv)))
                (filter (\<lambda>kv. array_index (fst kv) \<noteq> None) kvs))
       @ map snd (filter (\<lambda>kv. array_index (fst kv) = None) kvs)"

text \<open>The test of one record, the function given to \<open>data.filter\<close>.\<close>

definition record_passes ::
    "runtime \<Rightarrow> (string \<times> FilterCondition list) list \<Rightarrow> jsval \<Rightarrow> error + bool" where
  "record_passes E filtersByField rec =
     every_e (\<lambda>fieldFilters. some_e (\<lambda>f. applyFilter E rec f) fieldFilters)
       (Object_values filtersByField)"

definition applyFilters ::
    "runtime \<Rightarrow> jsval list \<Rightarrow> FilterCondition list \<Rightarrow> error + jsval list" where
  "applyFilters E data filters =
     (let validFilters = filter hasValidFilterValue filters in
      if length validFilters = 0 then Inr data
      else
        (case group_all [] validFilters of
           Inl e \<Rightarrow> Inl e
         | Inr filtersByField \<Rightarrow> filter_e (record_passes E filtersByField) data))"

section \<open>The comparator of the table's sort\<close>

datatype SortDirection = Asc | Desc

record SortConfig =
  key :: string
  direction :: SortDirection

text \<open>
  Subtraction and negation of numbers, up to rounding: the difference of two finite
  numbers has the sign of the exact difference, which is all a comparator's caller reads.
\<close>

fun num_sub :: "jsnum \<Rightarrow> jsnum \<Rightarrow> jsnum" where
  "num_sub NaN _ = NaN"
| "num_sub _ NaN = NaN"
| "num_sub (Fin a) (Fin b) = Fin (a - b)"
| "num_sub PosInf PosInf = NaN"
| "num_sub NegInf NegInf = NaN"
| "num_sub PosInf _ = PosInf"
| "num_sub NegInf _ = NegInf"
| "num_sub _ PosInf = NegInf"
| "num_sub _ NegInf = PosInf"

fun num_neg :: "jsnum \<Rightarrow> jsnum" where
  "num_neg NaN = NaN"
| "num_neg NegInf = PosInf"
| "num_neg (Fin a) = Fin (- a)"
| "num_neg PosInf = NegInf"

fun compare_values ::
    "(string \<Rightarrow> string \<Rightarrow> jsnum) \<Rightarrow> (jsval \<Rightarrow> string) \<Rightarrow> jsval \<Rightarrow> jsval \<Rightarrow> jsnum" where
  "compare_values localeCompare toStr (JStr a) (JStr b) = localeCompare a b"
| "compare_values localeCompare toStr (JNum a) (JNum b) = num_sub a b"
| "compare_values localeCompare toStr (JBool a) (JBool b) =
     (if a = b then Fin 0 else if a then Fin (- 1) else Fin 1)"
| "compare_values localeCompare toStr a b = localeCompare (toStr a) (toStr b)"

text \<open>
  The function given to \<open>sort\<close> in \<open>sortedData\<close>. Locale-aware comparison of strings and
  the conversion of a value to a string are parameters, as the runtime is.
\<close>

definition sortComparator ::
    "runtime \<Rightarrow> (string \<Rightarrow> string \<Rightarrow> jsnum) \<Rightarrow> (jsval \<Rightarrow> string) \<Rightarrow> SortConfig
       \<Rightarrow> jsval \<Rightarrow> jsval \<Rightarrow> jsnum" where
  "sortComparator E localeCompare toStr sortConfig a b =
     (let aValue = getNestedValue E a (key sortConfig);
          bValue = getNestedValue E b (key sortConfig) in
      if aValue = JNull \<or> aValue = JUndefined then Fin 1
      else if bValue = JNull \<or> bValue = JUndefined then Fin (- 1)
      else
        (let comparison = compare_values localeCompare toStr aValue bValue in
         if direction sortConfig = Asc then comparison else num_neg comparison))"

section \<open>A concrete runtime\<close>

text \<open>
  One runtime on which examples are evaluated: letters \<open>A\<close> to \<open>Z\<close> are lower-cased, a
  number is read from the leading decimal digits of a string, a date from the forms
  \<open>YYYY-MM-DD\<close> (midnight UTC) and \<open>YYYY-MM-DDTHH:MM:SSZ\<close>, local time is UTC, and
  \<open>Array.prototype\<close> has the methods of the 2023 edition of the language. A second one
  differs in its zone only, five hours west of UTC.
\<close>

definition lower_char :: "char \<Rightarrow> char" where
  "lower_char c =
     (case map_of (zip ''ABCDEFGHIJKLMNOPQRSTUVWXYZ'' ''abcdefghijklmnopqrstuvwxyz'') c of
        Some l \<Rightarrow> l
      | None \<Rightarrow> c)"

definition digits_parseFloat :: "string \<Rightarrow> jsnum" where
  "digits_parseFloat s =
     (let ds = takeWhile is_digit s in
      if ds = [] then NaN else Fin (real (decimal ds)))"

definition is_leap :: "nat \<Rightarrow> bool" where
  "is_leap y = (y mod 4 = 0 \<and> (y mod 100 \<noteq> 0 \<or> y mod 400 = 0))"

definition days_in_month :: "nat \<Rightarrow> nat \<Rightarrow> nat" where
  "days_in_month y m =
     (if m = 2 then (if is_leap y then 29 else 28)
      else if m \<in> {4, 6, 9, 11} then 30 else 31)"

text \<open>The number of the day \<open>y-m-d\<close>, counted from 1970-01-01.\<close>

definition days_from_civil :: "nat \<Rightarrow> nat \<Rightarrow> nat \<Rightarrow> int" where
  "days_from_civil y m d =
     (let y1 = (if m \<le> 2 then int y - 1 else int y);
          era = y1 div 400;
          yoe = y1 - era * 400;
          mp = (if m > 2 then int m - 3 else int m + 9);
          doy = (153 * mp + 2) div 5 + int d - 1;
          doe = yoe * 365 + yoe div 4 - yoe div 100 + doy
      in era * 146097 + doe - 719468)"

definition iso_day :: "string \<Rightarrow> int option" where
  "iso_day s =
     (if length s = 10 \<and> s ! 4 = CHR ''-'' \<and> s ! 7 = CHR ''-''
         \<and> list_all is_digit (take 4 s @ take 2 (drop 5 s) @ drop 8 s) then
        (let y = decimal (take 4 s); m = decimal (take 2 (drop 5 s)); d = decimal (drop 8 s)
         in if 1 \<le> m \<and> m \<le> 12 \<and> 1 \<le> d \<and> d \<le> days_in_month y m
            then Some (days_from_civil y m d) else None)
      else None)"

definition iso_time :: "string \<Rightarrow> int option" where
  "iso_time s =
     (if length s = 10 \<and> s ! 0 = CHR ''T'' \<and> s ! 3 = CHR '':'' \<and> s ! 6 = CHR '':''
         \<and> s ! 9 = CHR ''Z''
         \<and> list_all is_digit (take 2 (drop 1 s) @ take 2 (drop 4 s) @ take 2 (drop 7 s)) then
        (let h = decimal (take 2 (drop 1 s)); m = decimal (take 2 (drop 4 s));
             x = decimal (take 2 (drop 7 s))
         in if h < 24 \<and> m < 60 \<and> x < 60
            then Some (int h * 3600000 + int m * 60000 + int x * 1000) else None)
      else None)"

definition iso_date :: "string \<Rightarrow> int option" where
  "iso_date s =
     (case iso_day (take 10 s) of
        None \<Rightarrow> None
      | Some d \<Rightarrow>
          (if length s = 10 then Some (d * msPerDay)
           else case iso_time (drop 10 s) of
                  None \<Rightarrow> None
                | Some t \<Rightarrow> Some (d * msPerDay + t)))"

definition utc_runtime :: runtime where
  "utc_runtime =
     \<lparr> toLowerCase = map lower_char,
       parseFloat = digits_parseFloat,
       Date_parse = iso_date,
       LocalTZA = (\<lambda>t u. 0),
       Array_prototype =
         [''at'', ''concat'', ''constructor'', ''copyWithin'', ''entries'', ''every'',
          ''fill'', ''filter'', ''find'', ''findIndex'', ''findLast'', ''findLastIndex'',
          ''flat'', ''flatMap'', ''forEach'', ''includes'', ''indexOf'', ''join'', ''keys'',
          ''lastIndexOf'', ''map'', ''pop'', ''push'', ''reduce'', ''reduceRight'',
          ''reverse'', ''shift'', ''slice'', ''some'', ''sort'', ''splice'',
          ''toLocaleString'', ''toReversed'', ''toSorted'', ''toSpliced'', ''toString'',
          ''unshift'', ''values'', ''with''] \<rparr>"

definition utc_minus_5_runtime :: runtime where
  "utc_minus_5_runtime = utc_runtime \<lparr> LocalTZA := (\<lambda>t u. - 18000000) \<rparr>"

section \<open>Notions of the specification\<close>

text \<open>
  A path is absent on a record when, walking it key by key, some level is not a keyed
  structure (an object or an array, a prototype object among them) or does not have the
  key, neither as its own nor as an inherited one.
\<close>

fun is_keyed :: "jsval \<Rightarrow> bool" where
  "is_keyed (JObj _) = True"
| "is_keyed (JArr _) = True"
| "is_keyed JObjectPrototype = True"
| "is_keyed JArrayPrototype = True"
| "is_keyed _ = False"

fun path_absent :: "runtime \<Rightarrow> jsval \<Rightarrow> string list \<Rightarrow> bool" where
  "path_absent E current [] = False"
| "path_absent E current (k # ks) =
     (if \<not> is_keyed current then True
      else case get_prop E current k of
             None \<Rightarrow> True
           | Some v \<Rightarrow> path_absent E v ks)"

text \<open>
  The shapes the evaluator tells apart, of a field value and of a condition's value, and
  its rules: a pair of shapes, with the operator where the rule asks for one.
\<close>

datatype shape =
  ShString | ShNumber | ShBoolean | ShSequence | ShRange | ShDateRange | ShOther

fun shape_of :: "jsval \<Rightarrow> shape" where
  "shape_of (JStr _) = ShString"
| "shape_of (JNum _) = ShNumber"
| "shape_of (JBool _) = ShBoolean"
| "shape_of (JArr _) = ShSequence"
| "shape_of JArrayPrototype = ShSequence"
| "shape_of _ = ShOther"

fun shape_of_value :: "FilterValue \<Rightarrow> shape" where
  "shape_of_value (FVString _) = ShString"
| "shape_of_value (FVNumber _) = ShNumber"
| "shape_of_value (FVBoolean _) = ShBoolean"
| "shape_of_value (FVStrings _) = ShSequence"
| "shape_of_value (FVRange _) = ShRange"
| "shape_of_value (FVDateRange _) = ShDateRange"
| "shape_of_value _ = ShOther"

definition dispatch_rule :: "shape \<Rightarrow> shape \<Rightarrow> FilterOperator \<Rightarrow> bool" where
  "dispatch_rule fs vs op =
     ((fs = ShString \<and> vs = ShString)
      \<or> (fs = ShNumber \<and> vs = ShNumber)
      \<or> (fs = ShNumber \<and> op = Between \<and> vs = ShRange)
      \<or> (fs = ShString \<and> op = Between \<and> vs = ShDateRange)
      \<or> (fs = ShSequence \<and> vs = ShSequence)
      \<or> (fs = ShBoolean \<and> vs = ShBoolean))"

text \<open>
  The validity rules as the specification words them, on the value alone: null and
  undefined, the empty string, the empty sequence, and a range or date range whose two
  bounds are both null or empty are to be discarded.
\<close>

definition empty_bound :: "bound \<Rightarrow> bool" where
  "empty_bound b = (b = BNull \<or> b = BStr [])"

definition empty_date :: "string option \<Rightarrow> bool" where
  "empty_date d = (d = None \<or> d = Some [])"

fun spec_discards :: "FilterValue \<Rightarrow> bool" where
  "spec_discards FVNull = True"
| "spec_discards FVUndefined = True"
| "spec_discards (FVString s) = (s = [])"
| "spec_discards (FVStrings xs) = (xs = [])"
| "spec_discards (FVRange r) = (empty_bound (range_min r) \<and> empty_bound (range_max r))"
| "spec_discards (FVDateRange d) = (empty_date (startDate d) \<and> empty_date (endDate d))"
| "spec_discards _ = False"

fun is_range_value :: "FilterValue \<Rightarrow> bool" where
  "is_range_value (FVRange _) = True"
| "is_range_value (FVDateRange _) = True"
| "is_range_value _ = False"

text \<open>
  The number a bound of an amount range enforces: none when the bound is null, empty, or
  does not read as a number. \<open>min_ok\<close> and \<open>max_ok\<close> are the inclusive comparisons with
  the bounds that are enforced.
\<close>

definition enforced_bound :: "runtime \<Rightarrow> bound \<Rightarrow> jsnum option" where
  "enforced_bound E b =
     (case b of
        BNull \<Rightarrow> None
      | BStr s \<Rightarrow>
          (if s = [] \<or> isNaN (parseFloat E s) then None else Some (parseFloat E s))
      | BNum n \<Rightarrow> (if isNaN n then None else Some n))"

definition min_ok :: "runtime \<Rightarrow> jsnum \<Rightarrow> bound \<Rightarrow> bool" where
  "min_ok E v b = (case enforced_bound E b of None \<Rightarrow> True | Some m \<Rightarrow> num_le m v)"

definition max_ok :: "runtime \<Rightarrow> jsnum \<Rightarrow> bound \<Rightarrow> bool" where
  "max_ok E v b = (case enforced_bound E b of None \<Rightarrow> True | Some m \<Rightarrow> num_le v m)"

text \<open>
  The comparisons of a date range with a record's instant \<open>t\<close>: a start that is there and
  is a date must not be after \<open>t\<close>; an end that is there and is a date, moved to the end
  of its day, must not be before \<open>t\<close>. \<open>end_of_day z t\<close> is the last millisecond of the
  calendar day of \<open>t\<close> in a zone at the fixed offset \<open>z\<close>.
\<close>

definition start_ok :: "runtime \<Rightarrow> int \<Rightarrow> string option \<Rightarrow> bool" where
  "start_ok E t sd =
     (case sd of
        None \<Rightarrow> True
      | Some x \<Rightarrow> x = [] \<or> (case Date_parse E x of None \<Rightarrow> True | Some st \<Rightarrow> st \<le> t))"

definition end_ok :: "runtime \<Rightarrow> int \<Rightarrow> string option \<Rightarrow> bool" where
  "end_ok E t ed =
     (case ed of
        None \<Rightarrow> True
      | Some x \<Rightarrow> x = [] \<or>
          (case setHours_23_59_59_999 E (Date_parse E x) of
             None \<Rightarrow> True
           | Some en \<Rightarrow> t \<le> en))"

definition end_of_day :: "int \<Rightarrow> int \<Rightarrow> int" where
  "end_of_day z t = ((t + z) div msPerDay) * msPerDay + 86399999 - z"



section \<open>Path resolution: absent and null values\<close>





text \<open>
  A key that an object inherits is there: the path \<open>constructor\<close> is not absent on a
  plain object, it resolves to a function, and a condition on it is evaluated.
\<close>

lemma applyFilter_inherited_key:
  "getNestedValue utc_runtime (JObj [(''name'', JStr ''Ann'')]) ''constructor''
     = JFunction ''Object.prototype.constructor''
   \<and> \<not> path_absent utc_runtime (JObj [(''name'', JStr ''Ann'')]) (split_dot ''constructor'')
   \<and> applyFilter utc_runtime (JObj [(''name'', JStr ''Ann'')])
        \<lparr>fid = ''f1'', field = ''constructor'', operator = Equals, fvalue = FVString ''x''\<rparr>
       = Inr True
   \<and> getNestedValue utc_runtime (JObj [(''skills'', JArr [JStr ''go''])]) ''skills.map''
     = JFunction ''Array.prototype.map''"
  by (simp add: getNestedValue_def nested_step_def applyFilter_def inherited_from_Object_def
      inherited_from_Array_def Object_prototype_def array_index_def is_digit_def
      utc_runtime_def)



text \<open>
  C10. When the path of a condition's field resolves to a value that is there but is
  \<open>null\<close>, the condition evaluates to false, whatever its operator and its value: the
  permissive default is never reached.
\<close>

theorem applyFilter_null_field:
  assumes "getNestedValue E rec (field f) = JNull"
  shows "applyFilter E rec f = Inr False"
  using assms by (simp add: applyFilter_def)

theorem applyFilter_null_field_witness:
  "getNestedValue utc_runtime (JObj [(''manager'', JNull)]) ''manager'' = JNull
   \<and> applyFilter utc_runtime (JObj [(''manager'', JNull)])
        \<lparr>fid = ''f1'', field = ''manager'', operator = In, fvalue = FVBoolean True\<rparr>
       = Inr False"
proof -
  have h: "getNestedValue utc_runtime (JObj [(''manager'', JNull)])
             (field \<lparr>fid = ''f1'', field = ''manager'', operator = In,
                fvalue = FVBoolean True\<rparr>) = JNull"
    by (simp add: getNestedValue_def nested_step_def inherited_from_Object_def
        Object_prototype_def)
  from applyFilter_null_field [OF h] h show ?thesis by simp
qed

section \<open>The permissive default\<close>

lemma applyFilter_shapes_default:
  "\<not> dispatch_rule (shape_of fv) (shape_of_value v) op \<Longrightarrow>
     applyFilter_shapes E op fv v = Inr True"
  by (cases fv; cases v) (simp_all add: dispatch_rule_def)

text \<open>
  C4. When the path of a condition's field resolves to a value that is there (neither
  \<open>undefined\<close> nor \<open>null\<close>, which C5 and C10 cover), and the shape of that value, the shape
  of the condition's value and the operator match none of the evaluator's rules
  (string and string; number and number; number, \<open>between\<close> and a range; string,
  \<open>between\<close> and a date range; sequence and sequence; boolean and boolean), the
  evaluation returns true: it is not false and it does not raise.
\<close>

theorem applyFilter_fail_open:
  assumes "getNestedValue E rec (field f) \<noteq> JNull"
    and "getNestedValue E rec (field f) \<noteq> JUndefined"
    and "\<not> dispatch_rule (shape_of (getNestedValue E rec (field f)))
           (shape_of_value (fvalue f)) (operator f)"
  shows "applyFilter E rec f = Inr True"
  using assms by (simp add: applyFilter_def applyFilter_shapes_default)

theorem applyFilter_fail_open_witness:
  "applyFilter utc_runtime (JObj [(''isActive'', JBool True)])
      \<lparr>fid = ''f1'', field = ''isActive'', operator = Equals, fvalue = FVString ''yes''\<rparr>
     = Inr True
   \<and> applyFilter utc_runtime (JObj [(''salary'', JNum (Fin 5))])
      \<lparr>fid = ''f2'', field = ''salary'', operator = Equals,
         fvalue = FVRange \<lparr>range_min = BNum (Fin 10), range_max = BNull\<rparr>\<rparr>
     = Inr True"
proof -
  let ?ra = "JObj [(''isActive'', JBool True)]"
  let ?fa = "\<lparr>fid = ''f1'', field = ''isActive'', operator = Equals,
               fvalue = FVString ''yes''\<rparr>"
  let ?rb = "JObj [(''salary'', JNum (Fin 5))]"
  let ?fb = "\<lparr>fid = ''f2'', field = ''salary'', operator = Equals,
               fvalue = FVRange \<lparr>range_min = BNum (Fin 10), range_max = BNull\<rparr>\<rparr>"
  have ga: "getNestedValue utc_runtime ?ra ''isActive'' = JBool True"
    by (simp add: getNestedValue_def nested_step_def inherited_from_Object_def
        Object_prototype_def)
  have gb: "getNestedValue utc_runtime ?rb ''salary'' = JNum (Fin 5)"
    by (simp add: getNestedValue_def nested_step_def inherited_from_Object_def
        Object_prototype_def)
  have a: "applyFilter utc_runtime ?ra ?fa = Inr True"
    by (rule applyFilter_fail_open) (simp_all add: ga dispatch_rule_def)
  have b: "applyFilter utc_runtime ?rb ?fb = Inr True"
    by (rule applyFilter_fail_open) (simp_all add: gb dispatch_rule_def)
  from a b show ?thesis by simp
qed

section \<open>The validity filter\<close>

lemma spec_discards_invalid:
  assumes "spec_discards (fvalue f)"
    and "is_range_value (fvalue f) \<longrightarrow> operator f = Between"
  shows "\<not> hasValidFilterValue f"
  using assms
  by (cases "fvalue f") (auto simp add: hasValidFilterValue_def empty_bound_def empty_date_def)

text \<open>
  C3, as stated, fails: under an operator other than \<open>between\<close> a range with both bounds
  null is kept, and under \<open>between\<close> a non-empty plain string is discarded.
\<close>

theorem hasValidFilterValue_counterexample:
  "hasValidFilterValue \<lparr>fid = ''f1'', field = ''salary'', operator = Equals,
       fvalue = FVRange \<lparr>range_min = BNull, range_max = BNull\<rparr>\<rparr>
   \<and> spec_discards (FVRange \<lparr>range_min = BNull, range_max = BNull\<rparr>)
   \<and> \<not> hasValidFilterValue \<lparr>fid = ''f2'', field = ''name'', operator = Between,
       fvalue = FVString ''ann''\<rparr>
   \<and> \<not> spec_discards (FVString ''ann'')"
  by (simp add: hasValidFilterValue_def empty_bound_def)

text \<open>
  C3, amended. For every condition whose operator is \<open>between\<close> exactly when its value is
  a range or a date range, the validity filter discards the condition exactly when its
  value is null or undefined, an empty plain string, an empty sequence, or a range or
  date range with both bounds null or empty, and keeps it for every other value. Under
  \<open>between\<close>, a value that is not a range or date range is always discarded; under any
  other operator, a range or date range is always kept.
\<close>

theorem hasValidFilterValue_by_operator:
  "((operator f = Between) = is_range_value (fvalue f)
      \<longrightarrow> hasValidFilterValue f = (\<not> spec_discards (fvalue f)))
   \<and> (operator f = Between \<and> \<not> is_range_value (fvalue f) \<longrightarrow> \<not> hasValidFilterValue f)
   \<and> (operator f \<noteq> Between \<and> is_range_value (fvalue f) \<longrightarrow> hasValidFilterValue f)"
  by (cases "fvalue f")
     (auto simp add: hasValidFilterValue_def empty_bound_def empty_date_def)

theorem hasValidFilterValue_by_operator_witness:
  "\<not> hasValidFilterValue \<lparr>fid = ''f1'', field = ''salary'', operator = Between,
       fvalue = FVRange \<lparr>range_min = BNull, range_max = BStr []\<rparr>\<rparr>
   \<and> hasValidFilterValue \<lparr>fid = ''f2'', field = ''joinDate'', operator = Between,
       fvalue = FVDateRange \<lparr>startDate = None, endDate = Some ''2024-03-15''\<rparr>\<rparr>
   \<and> hasValidFilterValue \<lparr>fid = ''f3'', field = ''name'', operator = Contains,
       fvalue = FVString ''ann''\<rparr>
   \<and> \<not> hasValidFilterValue \<lparr>fid = ''f4'', field = ''skills'', operator = In,
       fvalue = FVStrings []\<rparr>
   \<and> \<not> hasValidFilterValue \<lparr>fid = ''f5'', field = ''name'', operator = Between,
       fvalue = FVNumber (Fin 3)\<rparr>
   \<and> hasValidFilterValue \<lparr>fid = ''f6'', field = ''salary'', operator = Equals,
       fvalue = FVRange \<lparr>range_min = BNull, range_max = BNull\<rparr>\<rparr>"
  using
    hasValidFilterValue_by_operator [of "\<lparr>fid = ''f1'', field = ''salary'',
       operator = Between,
       fvalue = FVRange \<lparr>range_min = BNull, range_max = BStr []\<rparr>\<rparr>"]
    hasValidFilterValue_by_operator [of "\<lparr>fid = ''f2'', field = ''joinDate'',
       operator = Between,
       fvalue = FVDateRange \<lparr>startDate = None, endDate = Some ''2024-03-15''\<rparr>\<rparr>"]
    hasValidFilterValue_by_operator [of "\<lparr>fid = ''f3'', field = ''name'',
       operator = Contains, fvalue = FVString ''ann''\<rparr>"]
    hasValidFilterValue_by_operator [of "\<lparr>fid = ''f4'', field = ''skills'',
       operator = In, fvalue = FVStrings []\<rparr>"]
    hasValidFilterValue_by_operator [of "\<lparr>fid = ''f5'', field = ''name'',
       operator = Between, fvalue = FVNumber (Fin 3)\<rparr>"]
    hasValidFilterValue_by_operator [of "\<lparr>fid = ''f6'', field = ''salary'',
       operator = Equals,
       fvalue = FVRange \<lparr>range_min = BNull, range_max = BNull\<rparr>\<rparr>"]
  by (simp add: empty_bound_def empty_date_def)

section \<open>Selections from a sequence\<close>

lemma lowerValues_strings: "lowerValues E (map JStr vs) = Inr (map (toLowerCase E) vs)"
  by (induction vs) simp_all

lemma list_ex_lowered:
  "list_ex (\<lambda>c. c \<in> toLowerCase E ` set vs) (map (toLowerCase E) fs)
     = (\<exists>c\<in>set fs. \<exists>v\<in>set vs. toLowerCase E c = toLowerCase E v)"
  by (auto simp add: list_ex_iff)

lemma filterMultiSelect_empty: "filterMultiSelect E xs [] op = Inr True"
  by (simp add: filterMultiSelect_def)

lemma filterMultiSelect_In:
  "fs \<noteq> [] \<Longrightarrow> filterMultiSelect E (map JStr vs) fs In
     = Inr (\<exists>c\<in>set fs. \<exists>v\<in>set vs. toLowerCase E c = toLowerCase E v)"
  by (simp add: filterMultiSelect_def lowerValues_strings list_ex_lowered)

lemma filterMultiSelect_NotIn:
  "fs \<noteq> [] \<Longrightarrow> filterMultiSelect E (map JStr vs) fs NotIn
     = Inr (\<not> (\<exists>c\<in>set fs. \<exists>v\<in>set vs. toLowerCase E c = toLowerCase E v))"
  by (simp add: filterMultiSelect_def lowerValues_strings list_ex_lowered)

text \<open>
  C6. When the field of a condition resolves to a sequence of strings and the
  condition's value is a sequence: with an empty sequence in the condition the evaluation
  is true; otherwise \<open>in\<close> is true exactly when some value of the condition is, after
  lower-casing, a member of the record's sequence, and \<open>notIn\<close> is true exactly when none
  is, the negation of \<open>in\<close>.
\<close>

theorem applyFilter_multiSelect:
  assumes "getNestedValue E rec (field f) = JArr (map JStr vs)"
    and "fvalue f = FVStrings fs"
  shows "(fs = [] \<longrightarrow> applyFilter E rec f = Inr True)
     \<and> (fs \<noteq> [] \<and> operator f = In \<longrightarrow>
          applyFilter E rec f
            = Inr (\<exists>c\<in>set fs. \<exists>v\<in>set vs. toLowerCase E c = toLowerCase E v))
     \<and> (fs \<noteq> [] \<and> operator f = NotIn \<longrightarrow>
          applyFilter E rec f
            = Inr (\<not> (\<exists>c\<in>set fs. \<exists>v\<in>set vs. toLowerCase E c = toLowerCase E v)))"
  using assms
  by (simp add: applyFilter_def filterMultiSelect_empty filterMultiSelect_In
      filterMultiSelect_NotIn)

theorem applyFilter_multiSelect_witness:
  "applyFilter utc_runtime (JObj [(''skills'', JArr [JStr ''go'', JStr ''rust''])])
      \<lparr>fid = ''f1'', field = ''skills'', operator = NotIn, fvalue = FVStrings [''Go'']\<rparr>
     = Inr False
   \<and> applyFilter utc_runtime (JObj [(''skills'', JArr [JStr ''go'', JStr ''rust''])])
      \<lparr>fid = ''f2'', field = ''skills'', operator = NotIn, fvalue = FVStrings [''java'']\<rparr>
     = Inr True
   \<and> applyFilter utc_runtime (JObj [(''skills'', JArr [JStr ''go'', JStr ''rust''])])
      \<lparr>fid = ''f3'', field = ''skills'', operator = In,
         fvalue = FVStrings [''java'', ''RUST'']\<rparr>
     = Inr True
   \<and> applyFilter utc_runtime (JObj [(''skills'', JArr [JStr ''go'', JStr ''rust''])])
      \<lparr>fid = ''f4'', field = ''skills'', operator = In, fvalue = FVStrings []\<rparr>
     = Inr True"
proof -
  let ?r = "JObj [(''skills'', JArr [JStr ''go'', JStr ''rust''])]"
  have g: "getNestedValue utc_runtime ?r ''skills'' = JArr (map JStr [''go'', ''rust''])"
    by (simp add: getNestedValue_def nested_step_def inherited_from_Object_def
        Object_prototype_def)
  have lower: "toLowerCase utc_runtime = map lower_char"
    by (simp add: utc_runtime_def)
  note T = applyFilter_multiSelect [where E = utc_runtime and rec = ?r
      and vs = "[''go'', ''rust'']"]
  have a: "applyFilter utc_runtime ?r
      \<lparr>fid = ''f1'', field = ''skills'', operator = NotIn, fvalue = FVStrings [''Go'']\<rparr>
     = Inr False"
    using T [of "\<lparr>fid = ''f1'', field = ''skills'', operator = NotIn,
               fvalue = FVStrings [''Go'']\<rparr>" "[''Go'']"] g
    by (simp add: lower lower_char_def)
  have b: "applyFilter utc_runtime ?r
      \<lparr>fid = ''f2'', field = ''skills'', operator = NotIn, fvalue = FVStrings [''java'']\<rparr>
     = Inr True"
    using T [of "\<lparr>fid = ''f2'', field = ''skills'', operator = NotIn,
               fvalue = FVStrings [''java'']\<rparr>" "[''java'']"] g
    by (simp add: lower lower_char_def)
  have c: "applyFilter utc_runtime ?r
      \<lparr>fid = ''f3'', field = ''skills'', operator = In,
         fvalue = FVStrings [''java'', ''RUST'']\<rparr>
     = Inr True"
    using T [of "\<lparr>fid = ''f3'', field = ''skills'', operator = In,
               fvalue = FVStrings [''java'', ''RUST'']\<rparr>" "[''java'', ''RUST'']"] g
    by (simp add: lower lower_char_def)
  have d: "applyFilter utc_runtime ?r
      \<lparr>fid = ''f4'', field = ''skills'', operator = In, fvalue = FVStrings []\<rparr>
     = Inr True"
    using T [of "\<lparr>fid = ''f4'', field = ''skills'', operator = In,
               fvalue = FVStrings []\<rparr>" "[]"] g
    by simp
  from a b c d show ?thesis by simp
qed

section \<open>Amount ranges\<close>

lemma num_lt_NaN_right: "num_lt a NaN = False"
  by (cases a) simp_all

lemma isNaN_iff: "isNaN n = (n = NaN)"
  by (cases n) simp_all

lemma not_lt_iff_le: "a \<noteq> NaN \<Longrightarrow> b \<noteq> NaN \<Longrightarrow> (\<not> num_lt a b) = num_le b a"
  by (cases a; cases b) (auto simp add: num_le_def num_eq_def)

lemma bound_rejects_below:
  "v \<noteq> NaN \<Longrightarrow> bound_rejects E True v b = (\<not> min_ok E v b)"
  by (cases b)
     (auto simp add: bound_rejects_def min_ok_def enforced_bound_def Let_def isNaN_iff
        not_lt_iff_le [symmetric])

lemma bound_rejects_above:
  "v \<noteq> NaN \<Longrightarrow> bound_rejects E False v b = (\<not> max_ok E v b)"
  by (cases b)
     (auto simp add: bound_rejects_def max_ok_def enforced_bound_def Let_def isNaN_iff
        not_lt_iff_le [symmetric])

lemma empty_bound_accepts: "empty_bound b \<Longrightarrow> \<not> bound_rejects E below v b"
  by (auto simp add: empty_bound_def bound_rejects_def)

lemma filterAmountRange_empty:
  "empty_bound (range_min r) \<Longrightarrow> empty_bound (range_max r) \<Longrightarrow> filterAmountRange E v r"
  by (simp add: filterAmountRange_def Let_def empty_bound_accepts)

lemma filterAmountRange_bounds:
  assumes "v \<noteq> NaN"
  shows "filterAmountRange E v r = (min_ok E v (range_min r) \<and> max_ok E v (range_max r))"
proof (cases "empty_bound (range_min r) \<and> empty_bound (range_max r)")
  case True
  then have "min_ok E v (range_min r)" "max_ok E v (range_max r)"
    by (auto simp add: empty_bound_def min_ok_def max_ok_def enforced_bound_def)
  with True show ?thesis by (simp add: filterAmountRange_empty)
next
  case False
  then show ?thesis
    using assms
    by (auto simp add: filterAmountRange_def Let_def bound_rejects_below
        bound_rejects_above empty_bound_def)
qed

text \<open>A field value that is NaN is below no bound and above none: it passes every range.\<close>

lemma filterAmountRange_NaN: "filterAmountRange E NaN r"
  by (cases "range_min r"; cases "range_max r")
     (simp_all add: filterAmountRange_def bound_rejects_def Let_def num_lt_NaN_right)

text \<open>
  C7. When the field of a \<open>between\<close> condition with a range resolves to a number: if both
  bounds are null or empty the evaluation is true; and for a field value that is a
  number (not NaN), the evaluation is true exactly when the value is at least every
  enforced minimum and at most every enforced maximum, where a bound is enforced when it
  is there and reads as a number, and a bound that is null, empty or does not read as a
  number constrains nothing.
\<close>

theorem applyFilter_amount_range:
  assumes "getNestedValue E rec (field f) = JNum v"
    and "operator f = Between"
    and "fvalue f = FVRange r"
  shows "(empty_bound (range_min r) \<and> empty_bound (range_max r) \<longrightarrow>
            applyFilter E rec f = Inr True)
     \<and> (v \<noteq> NaN \<longrightarrow>
            applyFilter E rec f
              = Inr (min_ok E v (range_min r) \<and> max_ok E v (range_max r)))"
  using assms
  by (simp add: applyFilter_def filterAmountRange_empty filterAmountRange_bounds)

theorem applyFilter_amount_range_witness:
  "applyFilter utc_runtime (JObj [(''salary'', JNum (Fin 150))])
      \<lparr>fid = ''f1'', field = ''salary'', operator = Between,
         fvalue = FVRange \<lparr>range_min = BStr ''abc'', range_max = BNum (Fin 100)\<rparr>\<rparr>
     = Inr False
   \<and> applyFilter utc_runtime (JObj [(''salary'', JNum (Fin 50))])
      \<lparr>fid = ''f1'', field = ''salary'', operator = Between,
         fvalue = FVRange \<lparr>range_min = BStr ''abc'', range_max = BNum (Fin 100)\<rparr>\<rparr>
     = Inr True
   \<and> applyFilter utc_runtime (JObj [(''salary'', JNum (Fin 100))])
      \<lparr>fid = ''f1'', field = ''salary'', operator = Between,
         fvalue = FVRange \<lparr>range_min = BStr ''100'', range_max = BNum (Fin 100)\<rparr>\<rparr>
     = Inr True
   \<and> applyFilter utc_runtime (JObj [(''salary'', JNum (Fin 50))])
      \<lparr>fid = ''f2'', field = ''salary'', operator = Between,
         fvalue = FVRange \<lparr>range_min = BNull, range_max = BStr []\<rparr>\<rparr>
     = Inr True"
proof -
  let ?ra = "\<lparr>range_min = BStr ''abc'', range_max = BNum (Fin 100)\<rparr>"
  let ?rb = "\<lparr>range_min = BStr ''100'', range_max = BNum (Fin 100)\<rparr>"
  let ?rc = "\<lparr>range_min = BNull, range_max = BStr []\<rparr>"
  let ?fa = "\<lparr>fid = ''f1'', field = ''salary'', operator = Between, fvalue = FVRange ?ra\<rparr>"
  let ?fb = "\<lparr>fid = ''f1'', field = ''salary'', operator = Between, fvalue = FVRange ?rb\<rparr>"
  let ?fc = "\<lparr>fid = ''f2'', field = ''salary'', operator = Between, fvalue = FVRange ?rc\<rparr>"
  have g: "getNestedValue utc_runtime (JObj [(''salary'', JNum n)]) ''salary'' = JNum n" for n
    by (simp add: getNestedValue_def nested_step_def inherited_from_Object_def
        Object_prototype_def)
  have pa: "parseFloat utc_runtime ''abc'' = NaN"
    by (simp add: utc_runtime_def digits_parseFloat_def is_digit_def)
  have pb: "parseFloat utc_runtime ''100'' = Fin 100"
    by (simp add: utc_runtime_def digits_parseFloat_def is_digit_def decimal_def
        digit_val_def)
  have a: "applyFilter utc_runtime (JObj [(''salary'', JNum (Fin 150))]) ?fa = Inr False"
    using applyFilter_amount_range
      [of utc_runtime "JObj [(''salary'', JNum (Fin 150))]" ?fa "Fin 150" ?ra]
    by (simp add: g pa min_ok_def max_ok_def enforced_bound_def num_le_def num_eq_def)
  have b: "applyFilter utc_runtime (JObj [(''salary'', JNum (Fin 50))]) ?fa = Inr True"
    using applyFilter_amount_range
      [of utc_runtime "JObj [(''salary'', JNum (Fin 50))]" ?fa "Fin 50" ?ra]
    by (simp add: g pa min_ok_def max_ok_def enforced_bound_def num_le_def num_eq_def)
  have c: "applyFilter utc_runtime (JObj [(''salary'', JNum (Fin 100))]) ?fb = Inr True"
    using applyFilter_amount_range
      [of utc_runtime "JObj [(''salary'', JNum (Fin 100))]" ?fb "Fin 100" ?rb]
    by (simp add: g pb min_ok_def max_ok_def enforced_bound_def num_le_def num_eq_def)
  have d: "applyFilter utc_runtime (JObj [(''salary'', JNum (Fin 50))]) ?fc = Inr True"
    using applyFilter_amount_range
      [of utc_runtime "JObj [(''salary'', JNum (Fin 50))]" ?fc "Fin 50" ?rc]
    by (simp add: g empty_bound_def)
  from a b c d show ?thesis by simp
qed

section \<open>Date ranges\<close>

lemma filterDateRange_empty:
  "empty_date (startDate d) \<Longrightarrow> empty_date (endDate d) \<Longrightarrow> filterDateRange E s d"
  by (simp add: filterDateRange_def empty_date_def)

lemma time_lt_Some_left:
  "time_lt (Some t) x = (case x of None \<Rightarrow> False | Some y \<Rightarrow> t < y)"
  by (cases x) simp_all

lemma time_lt_Some_right:
  "time_lt x (Some t) = (case x of None \<Rightarrow> False | Some y \<Rightarrow> y < t)"
  by (cases x) simp_all

lemma filterDateRange_valid:
  assumes "Date_parse E s = Some t"
  shows "filterDateRange E s d = (start_ok E t (startDate d) \<and> end_ok E t (endDate d))"
  using assms
  by (auto simp add: filterDateRange_def start_ok_def end_ok_def Let_def
        time_lt_Some_left time_lt_Some_right split: option.splits)

text \<open>A field value that is not a date is before no start and after no end.\<close>

lemma filterDateRange_invalid:
  assumes "Date_parse E s = None"
  shows "filterDateRange E s d"
  using assms
  by (auto simp add: filterDateRange_def Let_def split: option.splits)

lemma setHours_fixed_zone:
  assumes "\<forall>u b. LocalTZA E u b = z"
  shows "setHours_23_59_59_999 E (Some t) = TimeClip (end_of_day z t)"
  using assms by (simp add: setHours_23_59_59_999_def end_of_day_def Let_def)

lemma day_upper:
  fixes a :: int
  shows "a \<le> a div msPerDay * msPerDay + 86399999"
proof -
  have "a = a div msPerDay * msPerDay + a mod msPerDay" by simp
  moreover have "a mod msPerDay < msPerDay" by (simp add: msPerDay_def)
  ultimately show ?thesis unfolding msPerDay_def by linarith
qed

lemma day_last_ms:
  fixes q :: int
  shows "(q * msPerDay + 86399999) div msPerDay = q
         \<and> (q * msPerDay + 86399999) mod msPerDay = 86399999"
  by (simp add: msPerDay_def)

lemma end_of_day_same_day:
  "(end_of_day z t + z) div msPerDay = (t + z) div msPerDay
   \<and> (end_of_day z t + z) mod msPerDay = 86399999"
  using day_last_ms [of "(t + z) div msPerDay"] by (simp add: end_of_day_def)

lemma end_of_day_covers:
  assumes "(t + z) div msPerDay = (en + z) div msPerDay"
  shows "t \<le> end_of_day z en"
  using day_upper [of "t + z"] assms by (simp add: end_of_day_def)

lemma end_ok_same_day:
  assumes "\<forall>u b. LocalTZA E u b = z" and "Date_parse E e = Some en"
    and "(t + z) div msPerDay = (en + z) div msPerDay"
  shows "end_ok E t (Some e)"
  using end_of_day_covers [OF assms(3)] assms(2)
  by (simp add: end_ok_def setHours_fixed_zone [OF assms(1)] TimeClip_def)

text \<open>
  What a \<open>between\<close> condition with a date range does on a field that resolves to a
  string: if both bounds are absent the evaluation is true; and when the string is a
  date, at the instant \<open>t\<close>, the evaluation is true exactly when a start that is there
  (and is a date) is at most \<open>t\<close>, and \<open>t\<close> is at most an end that is there (and is a date)
  after the end has been moved to 23:59:59.999 of the local day of the instant it was
  read as. In a zone at a fixed offset from UTC that is the last millisecond of that
  local day, and every instant of that local day passes the test of the end.
\<close>

lemma applyFilter_date_range:
  assumes "getNestedValue E rec (field f) = JStr s"
    and "operator f = Between"
    and "fvalue f = FVDateRange d"
  shows "(empty_date (startDate d) \<and> empty_date (endDate d) \<longrightarrow>
            applyFilter E rec f = Inr True)
     \<and> (\<forall>t. Date_parse E s = Some t \<longrightarrow>
            applyFilter E rec f = Inr (start_ok E t (startDate d) \<and> end_ok E t (endDate d)))
     \<and> (\<forall>z en. (\<forall>u b. LocalTZA E u b = z) \<longrightarrow>
            setHours_23_59_59_999 E (Some en) = TimeClip (end_of_day z en)
            \<and> (end_of_day z en + z) div msPerDay = (en + z) div msPerDay
            \<and> (end_of_day z en + z) mod msPerDay = 86399999)
     \<and> (\<forall>z t e en. (\<forall>u b. LocalTZA E u b = z) \<and> endDate d = Some e
            \<and> Date_parse E e = Some en
            \<and> (t + z) div msPerDay = (en + z) div msPerDay \<longrightarrow>
            end_ok E t (endDate d))"
proof (intro conjI allI impI)
  assume "empty_date (startDate d) \<and> empty_date (endDate d)"
  with assms show "applyFilter E rec f = Inr True"
    by (simp add: applyFilter_def filterDateRange_empty)
next
  fix t assume "Date_parse E s = Some t"
  with assms show "applyFilter E rec f
      = Inr (start_ok E t (startDate d) \<and> end_ok E t (endDate d))"
    by (simp add: applyFilter_def filterDateRange_valid)
next
  fix z en assume "\<forall>u b. LocalTZA E u b = z"
  then show "setHours_23_59_59_999 E (Some en) = TimeClip (end_of_day z en)"
    by (rule setHours_fixed_zone)
next
  fix z en
  show "(end_of_day z en + z) div msPerDay = (en + z) div msPerDay"
    by (simp add: end_of_day_same_day)
next
  fix z en
  show "(end_of_day z en + z) mod msPerDay = 86399999"
    by (simp add: end_of_day_same_day)
next
  fix z t e en
  assume "(\<forall>u b. LocalTZA E u b = z) \<and> endDate d = Some e \<and> Date_parse E e = Some en
            \<and> (t + z) div msPerDay = (en + z) div msPerDay"
  then show "end_ok E t (endDate d)"
    by (simp add: end_ok_same_day)
qed

lemma iso_date_examples:
  "iso_date ''2024-03-15'' = Some 1710460800000"
  "iso_date ''2024-03-16'' = Some 1710547200000"
  "iso_date ''2024-03-15T12:00:00Z'' = Some 1710504000000"
  by (simp_all add: iso_date_def iso_day_def iso_time_def is_digit_def decimal_def
      digit_val_def days_in_month_def days_from_civil_def msPerDay_def is_leap_def)

text \<open>
  Where local time is UTC, a record dated as the end date passes and a record dated the
  day after does not.
\<close>

lemma applyFilter_date_range_same_day:
  "applyFilter utc_runtime (JObj [(''joinDate'', JStr ''2024-03-15'')])
     \<lparr>fid = ''f1'', field = ''joinDate'', operator = Between,
        fvalue = FVDateRange
          \<lparr>startDate = Some ''2024-03-15'', endDate = Some ''2024-03-15''\<rparr>\<rparr>
     = Inr True
   \<and> applyFilter utc_runtime (JObj [(''joinDate'', JStr ''2024-03-16'')])
     \<lparr>fid = ''f1'', field = ''joinDate'', operator = Between,
        fvalue = FVDateRange
          \<lparr>startDate = Some ''2024-03-15'', endDate = Some ''2024-03-15''\<rparr>\<rparr>
     = Inr False"
proof -
  let ?ra = "JObj [(''joinDate'', JStr ''2024-03-15'')]"
  let ?rb = "JObj [(''joinDate'', JStr ''2024-03-16'')]"
  let ?da = "\<lparr>startDate = Some ''2024-03-15'', endDate = Some ''2024-03-15''\<rparr>"
  let ?fa = "\<lparr>fid = ''f1'', field = ''joinDate'', operator = Between,
               fvalue = FVDateRange ?da\<rparr>"
  have p1: "Date_parse utc_runtime ''2024-03-15'' = Some 1710460800000"
    and p2: "Date_parse utc_runtime ''2024-03-16'' = Some 1710547200000"
    by (simp_all add: utc_runtime_def iso_date_examples)
  have sh: "setHours_23_59_59_999 utc_runtime (Some 1710460800000) = Some 1710547199999"
    by (simp add: setHours_23_59_59_999_def utc_runtime_def TimeClip_def msPerDay_def)
  have g1: "getNestedValue utc_runtime ?ra (field ?fa) = JStr ''2024-03-15''"
    by (simp add: getNestedValue_def nested_step_def)
  have g2: "getNestedValue utc_runtime ?rb (field ?fa) = JStr ''2024-03-16''"
    by (simp add: getNestedValue_def nested_step_def)
  have o: "operator ?fa = Between" by simp
  have v: "fvalue ?fa = FVDateRange ?da" by simp
  note T1 = applyFilter_date_range [OF g1 o v]
  note T2 = applyFilter_date_range [OF g2 o v]
  have a: "applyFilter utc_runtime ?ra ?fa
      = Inr (start_ok utc_runtime 1710460800000 (startDate ?da)
             \<and> end_ok utc_runtime 1710460800000 (endDate ?da))"
    by (rule T1 [THEN conjunct2, THEN conjunct1, THEN spec, THEN mp, OF p1])
  have b: "applyFilter utc_runtime ?rb ?fa
      = Inr (start_ok utc_runtime 1710547200000 (startDate ?da)
             \<and> end_ok utc_runtime 1710547200000 (endDate ?da))"
    by (rule T2 [THEN conjunct2, THEN conjunct1, THEN spec, THEN mp, OF p2])
  have s1: "start_ok utc_runtime 1710460800000 (Some ''2024-03-15'')"
    by (simp add: start_ok_def p1)
  have e1: "end_ok utc_runtime 1710460800000 (Some ''2024-03-15'')"
    by (simp add: end_ok_def p1 sh)
  have e2: "\<not> end_ok utc_runtime 1710547200000 (Some ''2024-03-15'')"
    by (simp add: end_ok_def p1 sh)
  from a b s1 e1 e2 show ?thesis by simp
qed

text \<open>
  C8. The end date is not inclusive for its whole day. Five hours west of UTC, the end
  date 2024-03-15 is read as midnight UTC, which is 19:00 of 2024-03-14 in local time,
  and the boundary becomes 23:59:59.999 of 2024-03-14 in local time, 04:59:59.999 UTC of
  2024-03-15. A record at noon UTC of 2024-03-15, a time of that calendar day in UTC and
  in local time alike, is rejected; a record dated 2024-03-15 with no time passes.
\<close>

theorem filterDateRange_end_day_west_of_UTC:
  "Date_parse utc_minus_5_runtime ''2024-03-15'' = Some 1710460800000
   \<and> setHours_23_59_59_999 utc_minus_5_runtime (Some 1710460800000) = Some 1710478799999
   \<and> Date_parse utc_minus_5_runtime ''2024-03-15T12:00:00Z'' = Some 1710504000000
   \<and> 1710504000000 div msPerDay = 1710460800000 div msPerDay
   \<and> (1710504000000 - 18000000) div msPerDay = 1710460800000 div msPerDay
   \<and> applyFilter utc_minus_5_runtime (JObj [(''joinDate'', JStr ''2024-03-15T12:00:00Z'')])
       \<lparr>fid = ''f1'', field = ''joinDate'', operator = Between,
          fvalue = FVDateRange \<lparr>startDate = None, endDate = Some ''2024-03-15''\<rparr>\<rparr>
     = Inr False
   \<and> applyFilter utc_minus_5_runtime (JObj [(''joinDate'', JStr ''2024-03-15'')])
       \<lparr>fid = ''f1'', field = ''joinDate'', operator = Between,
          fvalue = FVDateRange \<lparr>startDate = None, endDate = Some ''2024-03-15''\<rparr>\<rparr>
     = Inr True"
proof -
  have p: "Date_parse utc_minus_5_runtime ''2024-03-15'' = Some 1710460800000"
      "Date_parse utc_minus_5_runtime ''2024-03-15T12:00:00Z'' = Some 1710504000000"
    by (simp_all add: utc_minus_5_runtime_def utc_runtime_def iso_date_examples)
  have sh: "setHours_23_59_59_999 utc_minus_5_runtime (Some 1710460800000)
      = Some 1710478799999"
    by (simp add: setHours_23_59_59_999_def utc_minus_5_runtime_def utc_runtime_def
        TimeClip_def msPerDay_def)
  have days: "(1710504000000 :: int) div msPerDay = 1710460800000 div msPerDay"
      "((1710504000000 :: int) - 18000000) div msPerDay = 1710460800000 div msPerDay"
    by (simp_all add: msPerDay_def)
  have g: "getNestedValue utc_minus_5_runtime (JObj [(''joinDate'', JStr x)]) ''joinDate''
      = JStr x" for x
    by (simp add: getNestedValue_def nested_step_def)
  have a: "applyFilter utc_minus_5_runtime
      (JObj [(''joinDate'', JStr ''2024-03-15T12:00:00Z'')])
       \<lparr>fid = ''f1'', field = ''joinDate'', operator = Between,
          fvalue = FVDateRange \<lparr>startDate = None, endDate = Some ''2024-03-15''\<rparr>\<rparr>
     = Inr False"
    by (simp add: applyFilter_def g filterDateRange_def p sh)
  have b: "applyFilter utc_minus_5_runtime (JObj [(''joinDate'', JStr ''2024-03-15'')])
       \<lparr>fid = ''f1'', field = ''joinDate'', operator = Between,
          fvalue = FVDateRange \<lparr>startDate = None, endDate = Some ''2024-03-15''\<rparr>\<rparr>
     = Inr True"
    by (simp add: applyFilter_def g filterDateRange_def p sh)
  from p sh days a b show ?thesis by simp
qed

section \<open>The composition of the conditions\<close>










lemma map_of_None_iff: "(map_of acc k = None) = (k \<notin> fst ` set acc)"
  by (simp add: map_of_eq_None_iff)

lemma inherited_None_iff:
  "(inherited_from_Object proto k = None) = (k \<notin> set Object_prototype)"
  by (simp add: inherited_from_Object_def)





text \<open>
  The grouping returns when no condition's field names a property of
  \<open>Object.prototype\<close>, and raises when one does.
\<close>

lemma group_step_returns:
  assumes "field v \<notin> set Object_prototype"
  shows "\<exists>acc'. group_step acc v = Inr acc'"
proof (cases "map_of acc (field v)")
  case None
  moreover from None have "map_of (acc @ [(field v, [])]) (field v) = Some []"
    by (simp add: map_add_def)
  ultimately show ?thesis
    using assms by (simp add: group_step_def inherited_None_iff)
next
  case (Some y)
  then show ?thesis by (simp add: group_step_def)
qed


lemma group_step_keys:
  assumes "group_step acc v = Inr acc'"
  shows "fst ` set acc' \<subseteq> insert (field v) (fst ` set acc)"
proof -
  let ?h = "\<lambda>(k, fs). if k = field v then (k, fs @ [v]) else (k, fs)"
  have h: "fst (?h p) = fst p" for p :: "string \<times> FilterCondition list"
    by (cases p) simp
  have keys: "fst ` set (map ?h xs) = fst ` set xs"
    for xs :: "(string \<times> FilterCondition list) list"
    by (simp add: image_image h)
  from assms have "acc' = map ?h acc \<or> acc' = map ?h (acc @ [(field v, [])])"
    by (auto simp add: group_step_def Let_def split: if_splits)
  then show ?thesis
  proof
    assume "acc' = map ?h acc"
    then have "fst ` set acc' = fst ` set acc"
      by (simp only: keys)
    then show ?thesis by blast
  next
    assume "acc' = map ?h (acc @ [(field v, [])])"
    then have "fst ` set acc' = fst ` set (acc @ [(field v, [])])"
      by (simp only: keys)
    then show ?thesis by simp
  qed
qed

lemma group_step_raises:
  assumes "field v \<in> set Object_prototype"
    and "\<forall>k\<in>fst ` set acc. k \<notin> set Object_prototype"
  shows "group_step acc v = Inl TypeError"
proof -
  from assms have "map_of acc (field v) = None"
    by (auto simp add: map_of_None_iff)
  with assms(1) show ?thesis
    by (simp add: group_step_def inherited_None_iff)
qed

lemma group_all_raises:
  assumes "\<exists>c\<in>set vs. field c \<in> set Object_prototype"
    and "\<forall>k\<in>fst ` set acc. k \<notin> set Object_prototype"
  shows "group_all acc vs = Inl TypeError"
  using assms
proof (induction vs arbitrary: acc)
  case Nil
  then show ?case by simp
next
  case (Cons v vs)
  show ?case
  proof (cases "field v \<in> set Object_prototype")
    case True
    from group_step_raises [OF True Cons.prems(2)] show ?thesis by simp
  next
    case False
    from group_step_returns [OF False, of acc]
    obtain acc1 where s1: "group_step acc v = Inr acc1" by blast
    have k1: "\<forall>k\<in>fst ` set acc1. k \<notin> set Object_prototype"
    proof
      fix k assume "k \<in> fst ` set acc1"
      with group_step_keys [OF s1] have "k = field v \<or> k \<in> fst ` set acc"
        by blast
      with False Cons.prems(2) show "k \<notin> set Object_prototype"
        by blast
    qed
    from False Cons.prems(1) have e1: "\<exists>c\<in>set vs. field c \<in> set Object_prototype"
      by simp
    from Cons.IH [OF e1 k1] s1 show ?thesis by simp
  qed
qed




lemma applyFilters_unfold:
  "applyFilters E data filters =
     (if filter hasValidFilterValue filters = [] then Inr data
      else case group_all [] (filter hasValidFilterValue filters) of
             Inl e \<Rightarrow> Inl e
           | Inr byField \<Rightarrow> filter_e (record_passes E byField) data)"
  by (simp add: applyFilters_def Let_def)


lemma applyFilters_no_valid:
  "\<forall>c\<in>set cs. \<not> hasValidFilterValue c \<Longrightarrow> applyFilters E R cs = Inr R"
  by (simp add: applyFilters_unfold filter_empty_conv)



text \<open>
  A valid condition whose field names a property of \<open>Object.prototype\<close> makes the
  grouping raise, whatever the records are.
\<close>

lemma applyFilters_inherited_field:
  assumes "\<exists>c\<in>set filters. hasValidFilterValue c \<and> field c \<in> set Object_prototype"
  shows "applyFilters E data filters = Inl TypeError"
proof -
  from assms have ne: "filter hasValidFilterValue filters \<noteq> []"
    by (auto simp add: filter_empty_conv)
  from assms have "\<exists>c\<in>set (filter hasValidFilterValue filters).
      field c \<in> set Object_prototype"
    by auto
  then have "group_all [] (filter hasValidFilterValue filters) = Inl TypeError"
    by (rule group_all_raises) simp
  with ne show ?thesis by (simp add: applyFilters_unfold)
qed







text \<open>
  A list of conditions with a condition on a field of \<open>Object.prototype\<close>: the call
  raises, although the condition evaluates to true on the record.
\<close>

lemma applyFilters_constructor_field:
  "applyFilters utc_runtime [JObj [(''name'', JStr ''Ann'')]]
     [\<lparr>fid = ''1'', field = ''constructor'', operator = Equals, fvalue = FVString ''x''\<rparr>]
     = Inl TypeError"
  by (rule applyFilters_inherited_field)
     (simp add: hasValidFilterValue_def Object_prototype_def)

text \<open>
  C2, as stated, fails: a range with both bounds null is, under the operator \<open>equals\<close>,
  a valid condition; it is evaluated, and the record that lacks the field is dropped.
\<close>

theorem applyFilters_identity_counterexample:
  "spec_discards (FVRange \<lparr>range_min = BNull, range_max = BNull\<rparr>)
   \<and> applyFilters utc_runtime
       [JObj [(''salary'', JNum (Fin 5))], JObj [(''name'', JStr ''Ann'')]]
       [\<lparr>fid = ''1'', field = ''salary'', operator = Equals,
          fvalue = FVRange \<lparr>range_min = BNull, range_max = BNull\<rparr>\<rparr>]
     = Inr [JObj [(''salary'', JNum (Fin 5))]]
   \<and> applyFilters utc_runtime
       [JObj [(''salary'', JNum (Fin 5))], JObj [(''name'', JStr ''Ann'')]]
       [\<lparr>fid = ''1'', field = ''salary'', operator = Equals,
          fvalue = FVRange \<lparr>range_min = BNull, range_max = BNull\<rparr>\<rparr>]
     \<noteq> Inr [JObj [(''salary'', JNum (Fin 5))], JObj [(''name'', JStr ''Ann'')]]"
proof -
  have run: "applyFilters utc_runtime
       [JObj [(''salary'', JNum (Fin 5))], JObj [(''name'', JStr ''Ann'')]]
       [\<lparr>fid = ''1'', field = ''salary'', operator = Equals,
          fvalue = FVRange \<lparr>range_min = BNull, range_max = BNull\<rparr>\<rparr>]
     = Inr [JObj [(''salary'', JNum (Fin 5))]]"
    by code_simp
  then show ?thesis by (simp add: empty_bound_def)
qed

text \<open>
  C2, amended. For every list of records \<open>R\<close>, \<open>applyFilters\<close> on \<open>R\<close> and no condition
  returns \<open>R\<close> itself, and so does \<open>applyFilters\<close> on \<open>R\<close> and conditions that are all
  invalid under these rules: the value is null or undefined, an empty string or an empty
  sequence, or the operator is \<open>between\<close> and the value is a range or date range with both
  bounds null or empty.
\<close>

theorem applyFilters_identity:
  "applyFilters E R [] = Inr R
   \<and> ((\<forall>c\<in>set cs. spec_discards (fvalue c)
                      \<and> (is_range_value (fvalue c) \<longrightarrow> operator c = Between))
        \<longrightarrow> applyFilters E R cs = Inr R)"
proof (intro conjI impI)
  show "applyFilters E R [] = Inr R"
    by (simp add: applyFilters_unfold)
next
  assume "\<forall>c\<in>set cs. spec_discards (fvalue c)
                      \<and> (is_range_value (fvalue c) \<longrightarrow> operator c = Between)"
  then have "\<forall>c\<in>set cs. \<not> hasValidFilterValue c"
    using spec_discards_invalid by blast
  then show "applyFilters E R cs = Inr R"
    by (rule applyFilters_no_valid)
qed

theorem applyFilters_identity_witness:
  "applyFilters utc_runtime [JObj [(''name'', JStr ''Ann'')], JObj []] []
     = Inr [JObj [(''name'', JStr ''Ann'')], JObj []]
   \<and> applyFilters utc_runtime [JObj [(''name'', JStr ''Ann'')], JObj []]
       [\<lparr>fid = ''1'', field = ''name'', operator = Contains, fvalue = FVString []\<rparr>,
        \<lparr>fid = ''2'', field = ''skills'', operator = In, fvalue = FVStrings []\<rparr>,
        \<lparr>fid = ''3'', field = ''salary'', operator = Between,
           fvalue = FVRange \<lparr>range_min = BNull, range_max = BStr []\<rparr>\<rparr>,
        \<lparr>fid = ''4'', field = ''joinDate'', operator = Between,
           fvalue = FVDateRange \<lparr>startDate = None, endDate = None\<rparr>\<rparr>,
        \<lparr>fid = ''5'', field = ''name'', operator = Equals, fvalue = FVNull\<rparr>]
     = Inr [JObj [(''name'', JStr ''Ann'')], JObj []]"
proof -
  let ?R = "[JObj [(''name'', JStr ''Ann'')], JObj []]"
  let ?cs = "[\<lparr>fid = ''1'', field = ''name'', operator = Contains, fvalue = FVString []\<rparr>,
        \<lparr>fid = ''2'', field = ''skills'', operator = In, fvalue = FVStrings []\<rparr>,
        \<lparr>fid = ''3'', field = ''salary'', operator = Between,
           fvalue = FVRange \<lparr>range_min = BNull, range_max = BStr []\<rparr>\<rparr>,
        \<lparr>fid = ''4'', field = ''joinDate'', operator = Between,
           fvalue = FVDateRange \<lparr>startDate = None, endDate = None\<rparr>\<rparr>,
        \<lparr>fid = ''5'', field = ''name'', operator = Equals, fvalue = FVNull\<rparr>]"
  note T = applyFilters_identity [of utc_runtime ?R ?cs]
  have rules: "\<forall>c\<in>set ?cs. spec_discards (fvalue c)
                      \<and> (is_range_value (fvalue c) \<longrightarrow> operator c = Between)"
    by (simp add: empty_bound_def empty_date_def)
  have a: "applyFilters utc_runtime ?R [] = Inr ?R"
    by (rule T [THEN conjunct1])
  have b: "applyFilters utc_runtime ?R ?cs = Inr ?R"
    by (rule T [THEN conjunct2, THEN mp, OF rules])
  from a b show ?thesis by simp
qed

section \<open>The comparator and values that are not there\<close>

text \<open>
  A record whose value at the sort key is not there (undefined or null) compares as
  greater than a record whose value is there, in both directions.
\<close>

lemma sortComparator_absent_first:
  assumes "getNestedValue E a (key c) = JNull \<or> getNestedValue E a (key c) = JUndefined"
  shows "sortComparator E lc ts c a b = Fin 1"
  using assms by (auto simp add: sortComparator_def)

lemma sortComparator_absent_second:
  assumes "getNestedValue E a (key c) \<noteq> JNull" and "getNestedValue E a (key c) \<noteq> JUndefined"
    and "getNestedValue E b (key c) = JNull \<or> getNestedValue E b (key c) = JUndefined"
  shows "sortComparator E lc ts c a b = Fin (- 1)"
  using assms by (auto simp add: sortComparator_def)

text \<open>
  C9. Two records that both lack the sort key do not compare as equal: whichever comes
  first is reported greater, in both orders of the arguments and in both directions.
\<close>

theorem sortComparator_both_absent:
  "sortComparator E lc ts \<lparr>key = ''rating'', direction = d\<rparr>
      (JObj [(''id'', JNum (Fin 1))]) (JObj [(''id'', JNum (Fin 2))]) = Fin 1
   \<and> sortComparator E lc ts \<lparr>key = ''rating'', direction = d\<rparr>
      (JObj [(''id'', JNum (Fin 2))]) (JObj [(''id'', JNum (Fin 1))]) = Fin 1"
  by (simp add: sortComparator_def getNestedValue_def nested_step_def inherited_from_Object_def
        Object_prototype_def)

end
